theory Spec2Isabelle
  imports Main
begin

section \<open>Task classes of \<open>bot/tasks/__init__.py\<close>\<close>

text \<open>
  The module defines one base class, \<open>BaseTask\<close>, holding a task module, and five
  subclasses that override \<open>execute\<close>. The class of an object is the constructor of
  the datatype, its \<open>module\<close> field the argument. The source defines the class name
  \<open>UTask\<close> twice; the second class statement rebinds the name, and every later
  reference (\<open>utask_factory\<close>, \<open>isinstance\<close>) resolves to that second class, which
  is the one modelled under the name \<open>UTask\<close>.
\<close>

datatype 'm task =
    BaseTask 'm
  | TrustedTask 'm
  | UTask 'm
  | UTaskLocalExecutor 'm
  | PostprocessTask 'm
  | UworkerMainTask 'm

text \<open>
  The task modules imported at the top of the file, and the string \<open>'none'\<close> that
  \<open>PostprocessTask\<close> and \<open>UworkerMainTask\<close> take as their default module.
\<close>

datatype task_module =
    analyze_task | blame_task | corpus_pruning_task | fuzz_task | impact_task
  | minimize_task | progression_task | regression_task | symbolize_task
  | unpack_task | upload_reports_task | variant_task | none_str

datatype error =
    NotImplementedError string
  | KeyError string
  | UnknownTaskError string

text \<open>
  \<open>isinstance(task, UTask)\<close>: no other class of the file derives from \<open>UTask\<close>, so
  the test holds exactly for objects built by that class.
\<close>

fun isinstance_UTask :: "'m task \<Rightarrow> bool" where
  "isinstance_UTask (UTask m) = True"
| "isinstance_UTask _ = False"

text \<open>The tasks that run the three phases of a utask: the two untrusted executors.\<close>

fun is_utask :: "'m task \<Rightarrow> bool" where
  "is_utask (UTask m) = True"
| "is_utask (UTaskLocalExecutor m) = True"
| "is_utask _ = False"

text \<open>
  \<open>utask_factory(task_module, in_memory=True)\<close> logs one line and returns the
  executor; the model returns the executor together with the line logged.
\<close>

definition utask_factory :: "'m \<Rightarrow> bool \<Rightarrow> 'm task \<times> string" where
  "utask_factory task_mod in_memory =
     (if in_memory then (UTaskLocalExecutor task_mod, ''Using memory for utasks.'')
      else (UTask task_mod, ''Using GCS for utasks.''))"

section \<open>The registry\<close>

text \<open>
  A Python dict keeps its keys in insertion order and holds each key once. Storing
  under a key that is present replaces the value and keeps the key's position; a dict
  display \<open>{k1: v1, k2: v2, ...}\<close> stores its entries from left to right into an
  empty dict, and raises nothing when a key repeats.
\<close>

fun dict_setitem :: "('k \<times> 'v) list \<Rightarrow> 'k \<Rightarrow> 'v \<Rightarrow> ('k \<times> 'v) list" where
  "dict_setitem [] k v = [(k, v)]"
| "dict_setitem ((k', v') # d) k v =
     (if k' = k then (k', v) # d else (k', v') # dict_setitem d k v)"

definition dict_display :: "('k \<times> 'v) list \<Rightarrow> ('k \<times> 'v) list" where
  "dict_display entries = foldl (\<lambda>d (k, v). dict_setitem d k v) [] entries"

text \<open>\<open>d[k]\<close> raises \<open>KeyError\<close> when the key is absent.\<close>

definition dict_getitem :: "(string \<times> 'v) list \<Rightarrow> string \<Rightarrow> error + 'v" where
  "dict_getitem d k = (case map_of d k of None \<Rightarrow> Inl (KeyError k) | Some v \<Rightarrow> Inr v)"

type_synonym 'm registry = "(string \<times> 'm task) list"

text \<open>The entries of the display bound to \<open>COMMAND_MAP\<close>, as written in the source.\<close>

definition COMMAND_MAP_entries :: "(string \<times> task_module task) list" where
  "COMMAND_MAP_entries =
     [(''analyze'', fst (utask_factory analyze_task True)),
      (''blame'', TrustedTask blame_task),
      (''corpus_pruning'', fst (utask_factory corpus_pruning_task True)),
      (''fuzz'', fst (utask_factory fuzz_task True)),
      (''impact'', TrustedTask impact_task),
      (''minimize'', fst (utask_factory minimize_task True)),
      (''progression'', fst (utask_factory progression_task True)),
      (''regression'', fst (utask_factory regression_task True)),
      (''symbolize'', TrustedTask symbolize_task),
      (''unpack'', TrustedTask unpack_task),
      (''uworker_postprocess'', PostprocessTask none_str),
      (''upload_reports'', TrustedTask upload_reports_task),
      (''uworker_main'', UworkerMainTask none_str),
      (''variant'', fst (utask_factory variant_task True))]"

definition COMMAND_MAP :: "task_module registry" where
  "COMMAND_MAP = dict_display COMMAND_MAP_entries"

text \<open>
  The two queries read the global \<open>COMMAND_MAP\<close>; the model takes the dict they read
  as its first argument.
\<close>

definition is_multimachine_executed :: "'m registry \<Rightarrow> string \<Rightarrow> error + bool" where
  "is_multimachine_executed cmap task_name =
     (case dict_getitem cmap task_name of
        Inl e \<Rightarrow> Inl e
      | Inr t \<Rightarrow> Inr (isinstance_UTask t))"

text \<open>
  The list comprehension of \<open>get_multimachine_tasks\<close>: it walks the keys in order and
  keeps those for which the query is true; an exception raised by the query ends it.
\<close>

fun multimachine_comprehension :: "'m registry \<Rightarrow> string list \<Rightarrow> error + string list" where
  "multimachine_comprehension cmap [] = Inr []"
| "multimachine_comprehension cmap (task_name # rest) =
     (case is_multimachine_executed cmap task_name of
        Inl e \<Rightarrow> Inl e
      | Inr b \<Rightarrow>
          (case multimachine_comprehension cmap rest of
             Inl e \<Rightarrow> Inl e
           | Inr names \<Rightarrow> Inr (if b then task_name # names else names)))"

definition get_multimachine_tasks :: "'m registry \<Rightarrow> error + string list" where
  "get_multimachine_tasks cmap = multimachine_comprehension cmap (map fst cmap)"

section \<open>Collaborators of \<open>execute\<close>\<close>

text \<open>
  The \<open>execute\<close> methods call functions of modules that are not part of this file:
  \<open>execute_task\<close> of the task module, the helpers of the \<open>utasks\<close> package and
  \<open>logs.log\<close>. They are parameters of the model, each a function on a state \<open>'s\<close>
  that stands for everything those calls may read and change; a helper returning a
  value returns it together with the new state. \<open>None\<close> of Python is \<open>None\<close> of
  the option type. The arguments \<open>task_argument\<close> and \<open>job_type\<close> are strings,
  \<open>uworker_env\<close> is a mapping; \<open>execute\<close> only passes them on. Of the pair that
  \<open>tworker_preprocess\<close> returns, \<open>execute\<close> reads the first component only; the
  second is kept as a value of the unit type.
\<close>

type_synonym uworker_env = "(string \<times> string) list"

record ('m, 'a, 's) collaborators =
  execute_task :: "'m \<Rightarrow> string \<Rightarrow> string \<Rightarrow> 's \<Rightarrow> 's"
  tworker_preprocess ::
    "'m \<Rightarrow> string \<Rightarrow> string \<Rightarrow> uworker_env \<Rightarrow> 's \<Rightarrow> (string \<times> unit) option \<times> 's"
  uworker_main :: "string \<Rightarrow> 's \<Rightarrow> string option \<times> 's"
  tworker_preprocess_no_io ::
    "'m \<Rightarrow> string \<Rightarrow> string \<Rightarrow> uworker_env \<Rightarrow> 's \<Rightarrow> 'a option \<times> 's"
  uworker_main_no_io :: "'m \<Rightarrow> 'a \<Rightarrow> 's \<Rightarrow> 'a option \<times> 's"
  tworker_postprocess_no_io :: "'m \<Rightarrow> 'a \<Rightarrow> 'a \<Rightarrow> 's \<Rightarrow> 's"
  tworker_postprocess :: "string \<Rightarrow> 's \<Rightarrow> 's"
  logs_log :: "string \<Rightarrow> 's \<Rightarrow> 's"

section \<open>The \<open>execute\<close> methods\<close>

text \<open>
  Every \<open>execute\<close> returns \<open>None\<close> to its caller. What the model keeps of a run is
  the way the body was left: \<open>Skipped\<close> for a bare \<open>return\<close> after an
  \<open>is None\<close> test, \<open>Completed\<close> for reaching the end of the body; and
  \<open>Inl\<close> of the exception where the body raises.
\<close>

datatype signal = Completed | Skipped

fun execute ::
  "('m, 'a, 's) collaborators \<Rightarrow> 'm task \<Rightarrow> string \<Rightarrow> string \<Rightarrow> uworker_env \<Rightarrow> 's
     \<Rightarrow> (error + signal) \<times> 's" where
  "execute c (BaseTask m) task_argument job_type uworker_env s =
     (Inl (NotImplementedError ''Child class must implement.''), s)"
| "execute c (TrustedTask m) task_argument job_type uworker_env s =
     (Inr Completed, execute_task c m task_argument job_type s)"
| "execute c (UTask m) task_argument job_type uworker_env s =
     (case tworker_preprocess c m task_argument job_type uworker_env s of
        (None, s1) \<Rightarrow> (Inr Skipped, s1)
      | (Some (input_download_url, u), s1) \<Rightarrow>
          (case uworker_main c input_download_url s1 of
             (r, s2) \<Rightarrow>
               (Inr Completed, logs_log c ''Utask: done with preprocess and main.'' s2)))"
| "execute c (UTaskLocalExecutor m) task_argument job_type uworker_env s =
     (case tworker_preprocess_no_io c m task_argument job_type uworker_env s of
        (None, s1) \<Rightarrow> (Inr Skipped, s1)
      | (Some uworker_input, s1) \<Rightarrow>
          (case uworker_main_no_io c m uworker_input s1 of
             (None, s2) \<Rightarrow> (Inr Skipped, s2)
           | (Some uworker_output, s2) \<Rightarrow>
               (Inr Completed,
                logs_log c ''Utask local: done.''
                  (tworker_postprocess_no_io c m uworker_output uworker_input s2))))"
| "execute c (PostprocessTask m) task_argument job_type uworker_env s =
     (Inr Completed, tworker_postprocess c task_argument s)"
| "execute c (UworkerMainTask m) task_argument job_type uworker_env s =
     (Inr Completed, snd (uworker_main c task_argument s))"

section \<open>Observing the calls\<close>

text \<open>
  To speak about which collaborator functions a run calls, in which order and with
  which arguments, the collaborators are wrapped: the wrapped function appends a
  record of the call to a list kept beside the state and then does what the original
  does.
\<close>

datatype ('m, 'a) call =
    Call_execute_task 'm string string
  | Call_tworker_preprocess 'm string string uworker_env
  | Call_uworker_main string
  | Call_tworker_preprocess_no_io 'm string string uworker_env
  | Call_uworker_main_no_io 'm 'a
  | Call_tworker_postprocess_no_io 'm 'a 'a
  | Call_tworker_postprocess string
  | Call_logs_log string

definition traced ::
  "('m, 'a, 's) collaborators \<Rightarrow> ('m, 'a, ('m, 'a) call list \<times> 's) collaborators" where
  "traced c =
     \<lparr> execute_task = (\<lambda>m a j (tr, s).
         (tr @ [Call_execute_task m a j], execute_task c m a j s)),
       tworker_preprocess = (\<lambda>m a j e (tr, s).
         (fst (tworker_preprocess c m a j e s),
          (tr @ [Call_tworker_preprocess m a j e], snd (tworker_preprocess c m a j e s)))),
       uworker_main = (\<lambda>url (tr, s).
         (fst (uworker_main c url s),
          (tr @ [Call_uworker_main url], snd (uworker_main c url s)))),
       tworker_preprocess_no_io = (\<lambda>m a j e (tr, s).
         (fst (tworker_preprocess_no_io c m a j e s),
          (tr @ [Call_tworker_preprocess_no_io m a j e],
           snd (tworker_preprocess_no_io c m a j e s)))),
       uworker_main_no_io = (\<lambda>m x (tr, s).
         (fst (uworker_main_no_io c m x s),
          (tr @ [Call_uworker_main_no_io m x], snd (uworker_main_no_io c m x s)))),
       tworker_postprocess_no_io = (\<lambda>m y x (tr, s).
         (tr @ [Call_tworker_postprocess_no_io m y x], tworker_postprocess_no_io c m y x s)),
       tworker_postprocess = (\<lambda>p (tr, s).
         (tr @ [Call_tworker_postprocess p], tworker_postprocess c p s)),
       logs_log = (\<lambda>msg (tr, s). (tr @ [Call_logs_log msg], logs_log c msg s)) \<rparr>"

text \<open>
  The phase a helper of \<open>utasks\<close> runs, by its name: the \<open>preprocess\<close>, \<open>main\<close> and
  \<open>postprocess\<close> helpers, with or without I/O.
\<close>

datatype phase = PREPROCESS | MAIN | POSTPROCESS

fun phase_of_call :: "('m, 'a) call \<Rightarrow> phase option" where
  "phase_of_call (Call_tworker_preprocess m a j e) = Some PREPROCESS"
| "phase_of_call (Call_tworker_preprocess_no_io m a j e) = Some PREPROCESS"
| "phase_of_call (Call_uworker_main url) = Some MAIN"
| "phase_of_call (Call_uworker_main_no_io m x) = Some MAIN"
| "phase_of_call (Call_tworker_postprocess_no_io m y x) = Some POSTPROCESS"
| "phase_of_call (Call_tworker_postprocess p) = Some POSTPROCESS"
| "phase_of_call (Call_execute_task m a j) = None"
| "phase_of_call (Call_logs_log msg) = None"

definition phases :: "('m, 'a) call list \<Rightarrow> phase list" where
  "phases tr = List.map_filter phase_of_call tr"

text \<open>The calls of a run that starts with an empty record, its phases and its signal.\<close>

definition calls_of ::
  "('m, 'a, 's) collaborators \<Rightarrow> 'm task \<Rightarrow> string \<Rightarrow> string \<Rightarrow> uworker_env \<Rightarrow> 's
     \<Rightarrow> ('m, 'a) call list" where
  "calls_of c t a j e s = fst (snd (execute (traced c) t a j e ([], s)))"

definition signal_of ::
  "('m, 'a, 's) collaborators \<Rightarrow> 'm task \<Rightarrow> string \<Rightarrow> string \<Rightarrow> uworker_env \<Rightarrow> 's
     \<Rightarrow> error + signal" where
  "signal_of c t a j e s = fst (execute c t a j e s)"

section \<open>The phase functions and the storage behind the helpers\<close>

text \<open>
  The bodies of the \<open>utasks\<close> helpers, of the task modules and of the storage
  service are not in this file. Where a property depends on what they do, they are
  modelled from the design: a task module offers \<open>preprocess\<close> and \<open>main\<close>, each
  returning an artifact or nothing (\<open>postprocess\<close> and \<open>executeTrusted\<close> return
  nothing, so only their being invoked is recorded); the storage offers
  \<open>materialize\<close> and \<open>resolve\<close>; a helper that receives only a locator finds
  the task module in the artifact itself (\<open>module_of\<close>). The state of this model is the
  list of the events so far.
\<close>

record ('m, 'a) world =
  preprocess :: "'m \<Rightarrow> string \<Rightarrow> string \<Rightarrow> uworker_env \<Rightarrow> 'a option"
  main :: "'m \<Rightarrow> 'a \<Rightarrow> 'a option"
  module_of :: "'a \<Rightarrow> 'm"
  materialize :: "'a \<Rightarrow> string"
  resolve :: "string \<Rightarrow> 'a"

datatype ('m, 'a) event =
    Invoked 'm phase
  | ExecuteTrusted 'm string string
  | Materialize 'a
  | Resolve string
  | Logged string

text \<open>
  Modelled from the spec: the body of \<open>utasks.tworker_preprocess\<close>, absent from the
  sources. PREPROCESS is invoked with the full context and produces a Handoff Artifact
  materialized to durable storage, returning its locator; with no artifact nothing is
  materialized.
\<close>

definition spec_tworker_preprocess ::
  "('m, 'a) world \<Rightarrow> 'm \<Rightarrow> string \<Rightarrow> string \<Rightarrow> uworker_env \<Rightarrow> ('m, 'a) event list
     \<Rightarrow> (string \<times> unit) option \<times> ('m, 'a) event list" where
  "spec_tworker_preprocess w m a j e es =
     (case preprocess w m a j e of
        None \<Rightarrow> (None, es @ [Invoked m PREPROCESS])
      | Some x \<Rightarrow> (Some (materialize w x, ()), es @ [Invoked m PREPROCESS, Materialize x]))"

text \<open>
  Modelled from the spec: the body of \<open>utasks.uworker_main\<close>, absent from the sources.
  MAIN resolves the locator, runs the task's main on the artifact and produces a second
  artifact, materialized and returned as a locator, or signals no-op.
\<close>

definition spec_uworker_main ::
  "('m, 'a) world \<Rightarrow> string \<Rightarrow> ('m, 'a) event list \<Rightarrow> string option \<times> ('m, 'a) event list" where
  "spec_uworker_main w url es =
     (let x = resolve w url; m = module_of w x in
      case main w m x of
        None \<Rightarrow> (None, es @ [Resolve url, Invoked m MAIN])
      | Some y \<Rightarrow> (Some (materialize w y), es @ [Resolve url, Invoked m MAIN, Materialize y]))"

text \<open>
  Modelled from the spec: the body of \<open>utasks.tworker_postprocess\<close>, absent from the
  sources. POSTPROCESS resolves the second locator and finalizes the results.
\<close>

definition spec_tworker_postprocess ::
  "('m, 'a) world \<Rightarrow> string \<Rightarrow> ('m, 'a) event list \<Rightarrow> ('m, 'a) event list" where
  "spec_tworker_postprocess w p es =
     (let y = resolve w p; m = module_of w y in es @ [Resolve p, Invoked m POSTPROCESS])"

text \<open>
  Modelled from the spec: the bodies of the in-memory helpers
  \<open>tworker_preprocess_no_io\<close>, \<open>uworker_main_no_io\<close> and \<open>tworker_postprocess_no_io\<close>,
  of the task module's \<open>execute_task\<close> and of \<open>logs.log\<close>, absent from the sources.
  In the in-memory variant every Handoff Artifact stays in-process as a value and is
  never materialized.
\<close>

definition spec_collaborators ::
  "('m, 'a) world \<Rightarrow> ('m, 'a, ('m, 'a) event list) collaborators" where
  "spec_collaborators w =
     \<lparr> execute_task = (\<lambda>m a j es. es @ [ExecuteTrusted m a j]),
       tworker_preprocess = spec_tworker_preprocess w,
       uworker_main = spec_uworker_main w,
       tworker_preprocess_no_io = (\<lambda>m a j e es. (preprocess w m a j e, es @ [Invoked m PREPROCESS])),
       uworker_main_no_io = (\<lambda>m x es. (main w m x, es @ [Invoked m MAIN])),
       tworker_postprocess_no_io = (\<lambda>m y x es. es @ [Invoked m POSTPROCESS]),
       tworker_postprocess = spec_tworker_postprocess w,
       logs_log = (\<lambda>msg es. es @ [Logged msg]) \<rparr>"

fun is_Materialize :: "('m, 'a) event \<Rightarrow> bool" where
  "is_Materialize (Materialize x) = True"
| "is_Materialize _ = False"

fun is_Resolve :: "('m, 'a) event \<Rightarrow> bool" where
  "is_Resolve (Resolve l) = True"
| "is_Resolve _ = False"

fun phase_of_event :: "('m, 'a) event \<Rightarrow> phase option" where
  "phase_of_event (Invoked m p) = Some p"
| "phase_of_event _ = None"

text \<open>
  Modelled from the spec: \<open>dispatch\<close>, the entry point of the runner, absent from
  the sources. It fails with \<open>UnknownTaskError\<close> if the name is absent from the
  registry, otherwise forwards to the bound strategy's \<open>execute\<close> and returns
  whatever signal the strategy returns.
\<close>

definition dispatch ::
  "('m, 'a, 's) collaborators \<Rightarrow> 'm registry \<Rightarrow> string \<Rightarrow> string \<Rightarrow> string \<Rightarrow> uworker_env \<Rightarrow> 's
     \<Rightarrow> (error + signal) \<times> 's" where
  "dispatch c cmap task_name task_argument job_type uworker_env s =
     (case map_of cmap task_name of
        None \<Rightarrow> (Inl (UnknownTaskError task_name), s)
      | Some t \<Rightarrow> execute c t task_argument job_type uworker_env s)"

section \<open>A sample task module and storage\<close>

text \<open>
  A world to run the model in: artifacts are strings; \<open>preprocess\<close> finds no work for
  the empty argument and otherwise hands the argument on; \<open>main\<close> finds nothing to do
  for the artifact \<open>noop\<close> and otherwise appends a suffix; the storage names an
  artifact by a locator from which it can be read back.
\<close>

definition sample_world :: "(task_module, string) world" where
  "sample_world =
     \<lparr> preprocess = (\<lambda>m a j e. if a = [] then None else Some a),
       main = (\<lambda>m x. if x = ''noop'' then None else Some (x @ ''.out'')),
       module_of = (\<lambda>x. fuzz_task),
       materialize = (\<lambda>x. ''gs://'' @ x),
       resolve = (\<lambda>l. drop 5 l) \<rparr>"

definition sample :: "(task_module, string, (task_module, string) event list) collaborators" where
  "sample = spec_collaborators sample_world"

text \<open>The registry of the scenario: three names bound to three kinds of task.\<close>

definition scenario_map :: "task_module registry" where
  "scenario_map =
     dict_display
       [(''a'', TrustedTask blame_task), (''b'', UTask fuzz_task),
        (''c'', UTaskLocalExecutor fuzz_task)]"

section \<open>Properties of the registry\<close>

subsection \<open>Dicts\<close>


lemma dict_setitem_keys:
  "map fst (dict_setitem d k v) = (if k \<in> set (map fst d) then map fst d else map fst d @ [k])"
  by (induction d) (force split: if_splits)+

lemma dict_setitem_distinct:
  "distinct (map fst d) \<Longrightarrow> distinct (map fst (dict_setitem d k v))"
  by (simp add: dict_setitem_keys)

lemma map_of_dict_setitem: "map_of (dict_setitem d k v) = (map_of d)(k \<mapsto> v)"
  by (induction d) (auto simp: fun_eq_iff)

lemma dict_setitem_fresh:
  "k \<notin> set (map fst d) \<Longrightarrow> dict_setitem d k v = d @ [(k, v)]"
  by (induction d) auto

lemma foldl_setitem_distinct:
  "distinct (map fst d) \<Longrightarrow> distinct (map fst (foldl (\<lambda>d (k, v). dict_setitem d k v) d es))"
  by (induction es arbitrary: d) (auto simp: dict_setitem_distinct)

lemma foldl_setitem_map_of:
  "map_of (foldl (\<lambda>d (k, v). dict_setitem d k v) d es) = map_of d ++ map_of (rev es)"
  by (induction es arbitrary: d) (auto simp: map_of_dict_setitem fun_eq_iff map_add_def split: option.splits)

lemma foldl_setitem_fresh:
  "distinct (map fst d @ map fst es) \<Longrightarrow> foldl (\<lambda>d (k, v). dict_setitem d k v) d es = d @ es"
  by (induction es arbitrary: d) (auto simp: dict_setitem_fresh)

lemma dict_display_distinct: "distinct (map fst (dict_display es))"
  unfolding dict_display_def by (rule foldl_setitem_distinct) simp

lemma dict_display_map_of: "map_of (dict_display es) = map_of (rev es)"
  unfolding dict_display_def by (simp add: foldl_setitem_map_of)

lemma dict_display_distinct_id: "distinct (map fst es) \<Longrightarrow> dict_display es = es"
  unfolding dict_display_def using foldl_setitem_fresh[of "[]" es] by simp

lemma COMMAND_MAP_value:
  "COMMAND_MAP =
     [(''analyze'', UTaskLocalExecutor analyze_task),
      (''blame'', TrustedTask blame_task),
      (''corpus_pruning'', UTaskLocalExecutor corpus_pruning_task),
      (''fuzz'', UTaskLocalExecutor fuzz_task),
      (''impact'', TrustedTask impact_task),
      (''minimize'', UTaskLocalExecutor minimize_task),
      (''progression'', UTaskLocalExecutor progression_task),
      (''regression'', UTaskLocalExecutor regression_task),
      (''symbolize'', TrustedTask symbolize_task),
      (''unpack'', TrustedTask unpack_task),
      (''uworker_postprocess'', PostprocessTask none_str),
      (''upload_reports'', TrustedTask upload_reports_task),
      (''uworker_main'', UworkerMainTask none_str),
      (''variant'', UTaskLocalExecutor variant_task)]"
  by (simp add: COMMAND_MAP_def COMMAND_MAP_entries_def dict_display_def utask_factory_def)

lemma scenario_map_value:
  "scenario_map =
     [(''a'', TrustedTask blame_task), (''b'', UTask fuzz_task),
      (''c'', UTaskLocalExecutor fuzz_task)]"
  by (simp add: scenario_map_def dict_display_def)

lemma comprehension_filter:
  "set ns \<subseteq> set (map fst cmap) \<Longrightarrow>
   multimachine_comprehension cmap ns =
     Inr (filter (\<lambda>n. is_multimachine_executed cmap n = Inr True) ns)"
proof (induction ns)
  case Nil
  then show ?case by simp
next
  case (Cons n ns)
  then obtain t where "map_of cmap n = Some t"
    by (cases "map_of cmap n") (auto simp: map_of_eq_None_iff)
  with Cons show ?case
    by (simp add: is_multimachine_executed_def dict_getitem_def)
qed

subsection \<open>Classification\<close>

text \<open>
  Claim C3. For a name \<open>n\<close> bound in the registry to the task \<open>t\<close>,
  \<open>is_multimachine_executed\<close> returns true if and only if \<open>t\<close> is a \<open>UTask\<close>, and
  false otherwise; in particular it returns false for a \<open>TrustedTask\<close>, a
  \<open>UTaskLocalExecutor\<close>, a \<open>PostprocessTask\<close> and a \<open>UworkerMainTask\<close>.
\<close>

theorem is_multimachine_executed_iff_UTask:
  assumes "map_of cmap n = Some t"
  shows "(is_multimachine_executed cmap n = Inr True \<longleftrightarrow> (\<exists>m. t = UTask m))
       \<and> (is_multimachine_executed cmap n = Inr False \<longleftrightarrow> (\<forall>m. t \<noteq> UTask m))
       \<and> ((\<exists>m. t = TrustedTask m \<or> t = UTaskLocalExecutor m \<or> t = PostprocessTask m
                \<or> t = UworkerMainTask m)
            \<longrightarrow> is_multimachine_executed cmap n = Inr False)"
  using assms by (cases t) (auto simp: is_multimachine_executed_def dict_getitem_def)

theorem is_multimachine_executed_iff_UTask_witness:
  "map_of scenario_map ''b'' = Some (UTask fuzz_task)
   \<and> is_multimachine_executed scenario_map ''b'' = Inr True
   \<and> map_of scenario_map ''c'' = Some (UTaskLocalExecutor fuzz_task)
   \<and> is_multimachine_executed scenario_map ''c'' = Inr False"
  using is_multimachine_executed_iff_UTask [of scenario_map "''b''" "UTask fuzz_task"]
    is_multimachine_executed_iff_UTask [of scenario_map "''c''" "UTaskLocalExecutor fuzz_task"]
  by (simp add: scenario_map_value)

text \<open>
  Claim C8. \<open>get_multimachine_tasks\<close> returns the registered names for which
  \<open>is_multimachine_executed\<close> is true, in the order of the registry. It is a function
  of the registry alone, so a repeated call returns the same list. On the registry
  that binds \<open>a\<close> to a trusted task, \<open>b\<close> to a \<open>UTask\<close> and \<open>c\<close> to a local
  executor, it returns the list holding \<open>b\<close> only.
\<close>

theorem get_multimachine_tasks_filter:
  "get_multimachine_tasks cmap =
     Inr (filter (\<lambda>n. is_multimachine_executed cmap n = Inr True) (map fst cmap))
   \<and> get_multimachine_tasks scenario_map = Inr [''b'']"
proof -
  have general: "get_multimachine_tasks c =
     Inr (filter (\<lambda>n. is_multimachine_executed c n = Inr True) (map fst c))" for c :: "'x registry"
    unfolding get_multimachine_tasks_def by (rule comprehension_filter) simp
  have "get_multimachine_tasks scenario_map = Inr [''b'']"
    by (simp add: general scenario_map_value is_multimachine_executed_def dict_getitem_def)
  with general show ?thesis by simp
qed

subsection \<open>Repeated names\<close>

text \<open>
  Claim C7 says that binding two strategies to one name is an error found at startup
  and that a later binding never replaces an earlier one. The registry is a dict
  display: with a name written twice it evaluates without an error, and the name is
  bound to the later task.
\<close>

theorem duplicate_name_replaces_counterexample:
  "dict_display [(''a'', TrustedTask blame_task), (''a'', UTask fuzz_task)]
     = [(''a'', UTask fuzz_task)]
   \<and> dict_getitem (dict_display [(''a'', TrustedTask blame_task), (''a'', UTask fuzz_task)]) ''a''
     \<noteq> Inr (TrustedTask blame_task)"
  by (simp add: dict_display_def dict_getitem_def)

text \<open>
  Claim C7, amended. A registry holds each name once, so each registered name is bound
  to exactly one task; where the display repeats a name, the binding of the name is the
  last one written. The fourteen names of \<open>COMMAND_MAP\<close> are pairwise distinct, so
  \<open>COMMAND_MAP\<close> holds its entries as they are written and no binding is replaced.
\<close>

theorem registry_binds_each_name_once:
  "distinct (map fst (dict_display entries))
   \<and> map_of (dict_display entries) = map_of (rev entries)
   \<and> distinct (map fst COMMAND_MAP_entries)
   \<and> COMMAND_MAP = COMMAND_MAP_entries"
proof -
  have d: "distinct (map fst COMMAND_MAP_entries)"
    by (simp add: COMMAND_MAP_entries_def)
  then have "COMMAND_MAP = COMMAND_MAP_entries"
    unfolding COMMAND_MAP_def by (rule dict_display_distinct_id)
  with d show ?thesis
    by (simp add: dict_display_distinct dict_display_map_of)
qed

subsection \<open>The shipped registry\<close>

text \<open>
  Claim C10. With \<open>in_memory\<close> true, \<open>utask_factory\<close> returns the local executor.
  The entries of \<open>COMMAND_MAP\<close> that run the phases of a utask are the seven built by
  \<open>utask_factory\<close> with its default argument; \<open>is_multimachine_executed\<close> returns
  false for every registered name, and \<open>get_multimachine_tasks\<close> returns the empty
  list.
\<close>

theorem shipped_registry_not_multimachine:
  "(\<forall>m. fst (utask_factory m True) = UTaskLocalExecutor m)
   \<and> filter (\<lambda>(n, t). is_utask t) COMMAND_MAP =
       map (\<lambda>(n, m). (n, fst (utask_factory m True)))
         [(''analyze'', analyze_task), (''corpus_pruning'', corpus_pruning_task),
          (''fuzz'', fuzz_task), (''minimize'', minimize_task),
          (''progression'', progression_task), (''regression'', regression_task),
          (''variant'', variant_task)]
   \<and> (\<forall>n \<in> set (map fst COMMAND_MAP). is_multimachine_executed COMMAND_MAP n = Inr False)
   \<and> get_multimachine_tasks COMMAND_MAP = Inr []"
proof -
  have q: "\<forall>n \<in> set (map fst COMMAND_MAP). is_multimachine_executed COMMAND_MAP n = Inr False"
    by (simp add: COMMAND_MAP_value is_multimachine_executed_def dict_getitem_def)
  have "get_multimachine_tasks COMMAND_MAP =
     Inr (filter (\<lambda>n. is_multimachine_executed COMMAND_MAP n = Inr True) (map fst COMMAND_MAP))"
    unfolding get_multimachine_tasks_def by (rule comprehension_filter) simp
  also have "filter (\<lambda>n. is_multimachine_executed COMMAND_MAP n = Inr True) (map fst COMMAND_MAP) = []"
    using q by (simp add: filter_empty_conv)
  finally have g: "get_multimachine_tasks COMMAND_MAP = Inr []" .
  have f: "filter (\<lambda>(n, t). is_utask t) COMMAND_MAP =
       map (\<lambda>(n, m). (n, fst (utask_factory m True)))
         [(''analyze'', analyze_task), (''corpus_pruning'', corpus_pruning_task),
          (''fuzz'', fuzz_task), (''minimize'', minimize_task),
          (''progression'', progression_task), (''regression'', regression_task),
          (''variant'', variant_task)]"
    by (simp add: COMMAND_MAP_value utask_factory_def)
  show ?thesis using q g f by (simp add: utask_factory_def)
qed

theorem shipped_registry_not_multimachine_witness:
  "''fuzz'' \<in> set (map fst COMMAND_MAP) \<and> is_multimachine_executed COMMAND_MAP ''fuzz'' = Inr False"
proof -
  have m: "''fuzz'' \<in> set (map fst COMMAND_MAP)" by (simp add: COMMAND_MAP_value)
  with shipped_registry_not_multimachine show ?thesis by blast
qed

section \<open>Properties of \<open>execute\<close>\<close>

subsection \<open>What the wrapped collaborators record\<close>

text \<open>
  Wrapping the collaborators changes neither the result of \<open>execute\<close> nor the state the
  collaborators leave; the next two lemmas give the calls each untrusted executor makes.
\<close>

lemma execute_traced:
  "fst (execute (traced c) t a j e (tr, s)) = fst (execute c t a j e s)
   \<and> snd (snd (execute (traced c) t a j e (tr, s))) = snd (execute c t a j e s)"
  by (cases t) (auto simp: traced_def split: prod.splits option.splits)

lemma traced_UTask:
  "execute (traced c) (UTask m) a j e (tr, s) =
     (case tworker_preprocess c m a j e s of
        (None, s1) \<Rightarrow> (Inr Skipped, tr @ [Call_tworker_preprocess m a j e], s1)
      | (Some (url, u), s1) \<Rightarrow>
          (Inr Completed,
           tr @ [Call_tworker_preprocess m a j e, Call_uworker_main url,
                 Call_logs_log ''Utask: done with preprocess and main.''],
           logs_log c ''Utask: done with preprocess and main.'' (snd (uworker_main c url s1))))"
  by (auto simp: traced_def split: prod.splits option.splits)

lemma traced_UTaskLocalExecutor:
  "execute (traced c) (UTaskLocalExecutor m) a j e (tr, s) =
     (case tworker_preprocess_no_io c m a j e s of
        (None, s1) \<Rightarrow> (Inr Skipped, tr @ [Call_tworker_preprocess_no_io m a j e], s1)
      | (Some x, s1) \<Rightarrow>
          (case uworker_main_no_io c m x s1 of
             (None, s2) \<Rightarrow>
               (Inr Skipped,
                tr @ [Call_tworker_preprocess_no_io m a j e, Call_uworker_main_no_io m x], s2)
           | (Some y, s2) \<Rightarrow>
               (Inr Completed,
                tr @ [Call_tworker_preprocess_no_io m a j e, Call_uworker_main_no_io m x,
                      Call_tworker_postprocess_no_io m y x, Call_logs_log ''Utask local: done.''],
                logs_log c ''Utask local: done.'' (tworker_postprocess_no_io c m y x s2))))"
  by (auto simp: traced_def split: prod.splits option.splits)

text \<open>The sample collaborators, field by field.\<close>

lemma sample_simps:
  "tworker_preprocess sample = spec_tworker_preprocess sample_world"
  "uworker_main sample = spec_uworker_main sample_world"
  "tworker_postprocess sample = spec_tworker_postprocess sample_world"
  "tworker_preprocess_no_io sample = (\<lambda>m a j e es. (preprocess sample_world m a j e, es @ [Invoked m PREPROCESS]))"
  "uworker_main_no_io sample = (\<lambda>m x es. (main sample_world m x, es @ [Invoked m MAIN]))"
  "tworker_postprocess_no_io sample = (\<lambda>m y x es. es @ [Invoked m POSTPROCESS])"
  "logs_log sample = (\<lambda>msg es. es @ [Logged msg])"
  "execute_task sample = (\<lambda>m a j es. es @ [ExecuteTrusted m a j])"
  by (simp_all add: sample_def spec_collaborators_def)

lemma sample_world_simps:
  "preprocess sample_world m a j e = (if a = [] then None else Some a)"
  "main sample_world m x = (if x = ''noop'' then None else Some (x @ ''.out''))"
  "module_of sample_world x = fuzz_task"
  "materialize sample_world x = ''gs://'' @ x"
  "resolve sample_world l = drop 5 l"
  by (simp_all add: sample_world_def)

subsection \<open>No artifact from preprocess\<close>

text \<open>
  Claim C4. For a \<open>UTask\<close> and for a \<open>UTaskLocalExecutor\<close>: if the preprocess helper
  returns \<open>None\<close>, the call of that helper is the only call \<open>execute\<close> makes, so
  neither main nor postprocess is invoked, the state is the one preprocess left, and
  \<open>execute\<close> leaves by the early \<open>return\<close> (\<open>Skipped\<close>).
\<close>

theorem preprocess_absent_skipped:
  "(fst (tworker_preprocess c m a j e s) = None \<longrightarrow>
      execute (traced c) (UTask m) a j e ([], s) =
        (Inr Skipped, [Call_tworker_preprocess m a j e], snd (tworker_preprocess c m a j e s))
      \<and> execute c (UTask m) a j e s = (Inr Skipped, snd (tworker_preprocess c m a j e s)))
   \<and> (fst (tworker_preprocess_no_io c m a j e s) = None \<longrightarrow>
      execute (traced c) (UTaskLocalExecutor m) a j e ([], s) =
        (Inr Skipped, [Call_tworker_preprocess_no_io m a j e],
         snd (tworker_preprocess_no_io c m a j e s))
      \<and> execute c (UTaskLocalExecutor m) a j e s =
        (Inr Skipped, snd (tworker_preprocess_no_io c m a j e s)))"
  by (auto simp: traced_def split: prod.splits option.splits)

theorem preprocess_absent_skipped_witness:
  "fst (tworker_preprocess sample fuzz_task [] ''job'' [] []) = None
   \<and> execute (traced sample) (UTask fuzz_task) [] ''job'' [] ([], []) =
       (Inr Skipped, [Call_tworker_preprocess fuzz_task [] ''job'' []],
        [Invoked fuzz_task PREPROCESS])
   \<and> fst (tworker_preprocess_no_io sample fuzz_task [] ''job'' [] []) = None
   \<and> execute (traced sample) (UTaskLocalExecutor fuzz_task) [] ''job'' [] ([], []) =
       (Inr Skipped, [Call_tworker_preprocess_no_io fuzz_task [] ''job'' []],
        [Invoked fuzz_task PREPROCESS])"
  using preprocess_absent_skipped [of sample fuzz_task "[]" "''job''" "[]" "[]"]
  by (simp add: sample_simps sample_world_simps spec_tworker_preprocess_def)


subsection \<open>The two untrusted executors compared\<close>

lemma calls_of_UTask:
  "calls_of c (UTask m) a j e s =
     (case fst (tworker_preprocess c m a j e s) of
        None \<Rightarrow> [Call_tworker_preprocess m a j e]
      | Some (url, u) \<Rightarrow>
          [Call_tworker_preprocess m a j e, Call_uworker_main url,
           Call_logs_log ''Utask: done with preprocess and main.''])"
  unfolding calls_of_def traced_UTask by (auto split: prod.splits option.splits)

lemma calls_of_UTaskLocalExecutor:
  "calls_of c (UTaskLocalExecutor m) a j e s =
     (case tworker_preprocess_no_io c m a j e s of
        (None, s1) \<Rightarrow> [Call_tworker_preprocess_no_io m a j e]
      | (Some x, s1) \<Rightarrow>
          (case fst (uworker_main_no_io c m x s1) of
             None \<Rightarrow> [Call_tworker_preprocess_no_io m a j e, Call_uworker_main_no_io m x]
           | Some y \<Rightarrow>
               [Call_tworker_preprocess_no_io m a j e, Call_uworker_main_no_io m x,
                Call_tworker_postprocess_no_io m y x, Call_logs_log ''Utask local: done.'']))"
  unfolding calls_of_def traced_UTaskLocalExecutor by (auto split: prod.splits option.splits)

lemma signal_of_UTask:
  "signal_of c (UTask m) a j e s =
     Inr (if fst (tworker_preprocess c m a j e s) = None then Skipped else Completed)"
  unfolding signal_of_def by (auto split: prod.splits option.splits)

lemma signal_of_UTaskLocalExecutor:
  "signal_of c (UTaskLocalExecutor m) a j e s =
     (case tworker_preprocess_no_io c m a j e s of
        (None, s1) \<Rightarrow> Inr Skipped
      | (Some x, s1) \<Rightarrow>
          Inr (if fst (uworker_main_no_io c m x s1) = None then Skipped else Completed))"
  unfolding signal_of_def by (auto split: prod.splits option.splits)

text \<open>
  Claim C1 says that a \<open>UTask\<close> and a \<open>UTaskLocalExecutor\<close> of the same task
  module, on the same input, invoke the same phases and end with the same signal. On
  the sample module with the argument \<open>seed\<close> the \<open>UTask\<close> invokes preprocess and main
  where the local executor invokes preprocess, main and postprocess; with the argument
  \<open>noop\<close>, for which main finds nothing to do, the \<open>UTask\<close> reaches the end of its
  body and the local executor returns early.
\<close>

theorem strategies_differ_counterexample:
  "phases (calls_of sample (UTask fuzz_task) ''seed'' ''job'' [] []) = [PREPROCESS, MAIN]
   \<and> phases (calls_of sample (UTaskLocalExecutor fuzz_task) ''seed'' ''job'' [] [])
       = [PREPROCESS, MAIN, POSTPROCESS]
   \<and> signal_of sample (UTask fuzz_task) ''noop'' ''job'' [] [] = Inr Completed
   \<and> signal_of sample (UTaskLocalExecutor fuzz_task) ''noop'' ''job'' [] [] = Inr Skipped"
  by (simp add: calls_of_UTask calls_of_UTaskLocalExecutor signal_of_UTask
      signal_of_UTaskLocalExecutor sample_simps sample_world_simps spec_tworker_preprocess_def
      phases_def)

text \<open>
  Claim C1, amended. When the preprocess helpers of the two executors agree on whether
  there is an artifact, the phases a \<open>UTask\<close> invokes are the first two of the phases
  the \<open>UTaskLocalExecutor\<close> invokes: preprocess, then main if preprocess returned
  an artifact, and never postprocess. The two signals are equal except when the local
  executor stops after main (main returned \<open>None\<close>): there the \<open>UTask\<close>, which does
  not read what main returns, ends \<open>Completed\<close> and the local executor \<open>Skipped\<close>.
\<close>

theorem distributed_phases_prefix_of_local:
  assumes "(fst (tworker_preprocess c m a j e s) = None)
         = (fst (tworker_preprocess_no_io c m a j e s) = None)"
  shows "phases (calls_of c (UTask m) a j e s)
           = take 2 (phases (calls_of c (UTaskLocalExecutor m) a j e s))
       \<and> POSTPROCESS \<notin> set (phases (calls_of c (UTask m) a j e s))
       \<and> (signal_of c (UTask m) a j e s = signal_of c (UTaskLocalExecutor m) a j e s
            \<longleftrightarrow> phases (calls_of c (UTaskLocalExecutor m) a j e s) \<noteq> [PREPROCESS, MAIN])
       \<and> phases (calls_of c (UTask m) a j e s)
           = (if fst (tworker_preprocess c m a j e s) = None then [PREPROCESS]
              else [PREPROCESS, MAIN])
       \<and> signal_of c (UTask m) a j e s
           = Inr (if fst (tworker_preprocess c m a j e s) = None then Skipped else Completed)
       \<and> (phases (calls_of c (UTaskLocalExecutor m) a j e s) = [PREPROCESS, MAIN]
            \<longleftrightarrow> (\<exists>x. fst (tworker_preprocess_no_io c m a j e s) = Some x
                     \<and> fst (uworker_main_no_io c m x
                              (snd (tworker_preprocess_no_io c m a j e s))) = None))
       \<and> (phases (calls_of c (UTaskLocalExecutor m) a j e s) = [PREPROCESS, MAIN]
            \<longrightarrow> signal_of c (UTask m) a j e s = Inr Completed
                \<and> signal_of c (UTaskLocalExecutor m) a j e s = Inr Skipped)"
proof -
  have rel: "phases (calls_of c (UTask m) a j e s)
           = take 2 (phases (calls_of c (UTaskLocalExecutor m) a j e s))
       \<and> POSTPROCESS \<notin> set (phases (calls_of c (UTask m) a j e s))
       \<and> (signal_of c (UTask m) a j e s = signal_of c (UTaskLocalExecutor m) a j e s
            \<longleftrightarrow> phases (calls_of c (UTaskLocalExecutor m) a j e s) \<noteq> [PREPROCESS, MAIN])"
    using assms
    by (auto simp: calls_of_UTask calls_of_UTaskLocalExecutor signal_of_UTask
        signal_of_UTaskLocalExecutor phases_def
        split: prod.splits option.splits)
  have dist: "phases (calls_of c (UTask m) a j e s)
           = (if fst (tworker_preprocess c m a j e s) = None then [PREPROCESS]
              else [PREPROCESS, MAIN])"
    by (auto simp: calls_of_UTask phases_def split: prod.splits option.splits)
  have stop: "phases (calls_of c (UTaskLocalExecutor m) a j e s) = [PREPROCESS, MAIN]
            \<longleftrightarrow> (\<exists>x. fst (tworker_preprocess_no_io c m a j e s) = Some x
                     \<and> fst (uworker_main_no_io c m x
                              (snd (tworker_preprocess_no_io c m a j e s))) = None)"
    by (auto simp: calls_of_UTaskLocalExecutor phases_def split: prod.splits option.splits)
  have vals: "phases (calls_of c (UTaskLocalExecutor m) a j e s) = [PREPROCESS, MAIN]
            \<longrightarrow> signal_of c (UTask m) a j e s = Inr Completed
                \<and> signal_of c (UTaskLocalExecutor m) a j e s = Inr Skipped"
    using assms
    by (auto simp: calls_of_UTaskLocalExecutor signal_of_UTask signal_of_UTaskLocalExecutor
        phases_def split: prod.splits option.splits)
  have sig: "signal_of c (UTask m) a j e s
           = Inr (if fst (tworker_preprocess c m a j e s) = None then Skipped else Completed)"
    by (rule signal_of_UTask)
  from rel dist sig stop vals show ?thesis
    by blast
qed

theorem distributed_phases_prefix_of_local_witness:
  "(fst (tworker_preprocess sample fuzz_task ''seed'' ''job'' [] []) = None)
     = (fst (tworker_preprocess_no_io sample fuzz_task ''seed'' ''job'' [] []) = None)
   \<and> phases (calls_of sample (UTask fuzz_task) ''seed'' ''job'' [] []) = [PREPROCESS, MAIN]
   \<and> phases (calls_of sample (UTask fuzz_task) ''seed'' ''job'' [] [])
       = take 2 (phases (calls_of sample (UTaskLocalExecutor fuzz_task) ''seed'' ''job'' [] []))
   \<and> signal_of sample (UTask fuzz_task) ''seed'' ''job'' [] []
       = signal_of sample (UTaskLocalExecutor fuzz_task) ''seed'' ''job'' [] []
   \<and> (fst (tworker_preprocess sample fuzz_task ''noop'' ''job'' [] []) = None)
       = (fst (tworker_preprocess_no_io sample fuzz_task ''noop'' ''job'' [] []) = None)
   \<and> phases (calls_of sample (UTaskLocalExecutor fuzz_task) ''noop'' ''job'' [] [])
       = [PREPROCESS, MAIN]
   \<and> signal_of sample (UTask fuzz_task) ''noop'' ''job'' [] [] = Inr Completed
   \<and> signal_of sample (UTaskLocalExecutor fuzz_task) ''noop'' ''job'' [] [] = Inr Skipped"
proof -
  have h: "(fst (tworker_preprocess sample fuzz_task ''seed'' ''job'' [] []) = None)
     = (fst (tworker_preprocess_no_io sample fuzz_task ''seed'' ''job'' [] []) = None)"
    by (simp add: sample_simps sample_world_simps spec_tworker_preprocess_def)
  have l: "phases (calls_of sample (UTaskLocalExecutor fuzz_task) ''seed'' ''job'' [] [])
       = [PREPROCESS, MAIN, POSTPROCESS]"
    by (simp add: calls_of_UTaskLocalExecutor sample_simps sample_world_simps phases_def)
  have p: "fst (tworker_preprocess sample fuzz_task ''seed'' ''job'' [] []) \<noteq> None"
    by (simp add: sample_simps sample_world_simps spec_tworker_preprocess_def)
  have h': "(fst (tworker_preprocess sample fuzz_task ''noop'' ''job'' [] []) = None)
     = (fst (tworker_preprocess_no_io sample fuzz_task ''noop'' ''job'' [] []) = None)"
    by (simp add: sample_simps sample_world_simps spec_tworker_preprocess_def)
  have l': "phases (calls_of sample (UTaskLocalExecutor fuzz_task) ''noop'' ''job'' [] [])
       = [PREPROCESS, MAIN]"
    by (simp add: calls_of_UTaskLocalExecutor sample_simps sample_world_simps phases_def)
  note A = distributed_phases_prefix_of_local [OF h]
  note B = distributed_phases_prefix_of_local [OF h']
  have u: "phases (calls_of sample (UTask fuzz_task) ''seed'' ''job'' [] []) = [PREPROCESS, MAIN]"
    using A [THEN conjunct2, THEN conjunct2, THEN conjunct2, THEN conjunct1] p
    by (simp only: if_False)
  have t: "phases (calls_of sample (UTask fuzz_task) ''seed'' ''job'' [] [])
       = take 2 (phases (calls_of sample (UTaskLocalExecutor fuzz_task) ''seed'' ''job'' [] []))"
    by (rule A [THEN conjunct1])
  have "phases (calls_of sample (UTaskLocalExecutor fuzz_task) ''seed'' ''job'' [] [])
       \<noteq> [PREPROCESS, MAIN]"
    by (simp only: l) simp
  then have e: "signal_of sample (UTask fuzz_task) ''seed'' ''job'' [] []
       = signal_of sample (UTaskLocalExecutor fuzz_task) ''seed'' ''job'' [] []"
    using A [THEN conjunct2, THEN conjunct2, THEN conjunct1] by (rule iffD2 [rotated])
  have v: "signal_of sample (UTask fuzz_task) ''noop'' ''job'' [] [] = Inr Completed
       \<and> signal_of sample (UTaskLocalExecutor fuzz_task) ''noop'' ''job'' [] [] = Inr Skipped"
    using B [THEN conjunct2, THEN conjunct2, THEN conjunct2, THEN conjunct2, THEN conjunct2,
        THEN conjunct2] l'
    by (rule mp)
  from h u t e h' l' v show ?thesis by (intro conjI) (rule h u t e h' l' conjunct1 [OF v] conjunct2 [OF v])+
qed


subsection \<open>No artifact from main\<close>

text \<open>
  Claim C5 says that both executors return \<open>Skipped\<close> when preprocess returns an
  artifact and main returns \<open>None\<close>. On the sample module with the argument \<open>noop\<close>
  preprocess returns the artifact \<open>noop\<close>, main returns \<open>None\<close> for it, and the
  \<open>UTask\<close> runs to the end of its body, logging that it is done.
\<close>

theorem main_absent_distributed_counterexample:
  "preprocess sample_world fuzz_task ''noop'' ''job'' [] = Some ''noop''
   \<and> main sample_world fuzz_task ''noop'' = None
   \<and> execute sample (UTask fuzz_task) ''noop'' ''job'' [] [] =
       (Inr Completed,
        [Invoked fuzz_task PREPROCESS, Materialize ''noop'', Resolve ''gs://noop'',
         Invoked fuzz_task MAIN, Logged ''Utask: done with preprocess and main.''])"
  by (simp add: sample_simps sample_world_simps spec_tworker_preprocess_def
      spec_uworker_main_def)

text \<open>
  Claim C5, amended. For a \<open>UTaskLocalExecutor\<close>: if preprocess returns an artifact
  and main returns \<open>None\<close> for it, then the calls of these two helpers are the only
  calls, postprocess is not invoked, and \<open>execute\<close> leaves by the early \<open>return\<close>
  (\<open>Skipped\<close>). For a \<open>UTask\<close>: if preprocess returns a locator, \<open>execute\<close> calls
  main with it, does not read what main returns, logs that it is done, never invokes
  postprocess and reaches the end of its body (\<open>Completed\<close>).
\<close>

theorem main_absent_outcomes:
  "(fst (tworker_preprocess_no_io c m a j e s) = Some x \<longrightarrow>
    fst (uworker_main_no_io c m x (snd (tworker_preprocess_no_io c m a j e s))) = None \<longrightarrow>
      execute (traced c) (UTaskLocalExecutor m) a j e ([], s) =
        (Inr Skipped,
         [Call_tworker_preprocess_no_io m a j e, Call_uworker_main_no_io m x],
         snd (uworker_main_no_io c m x (snd (tworker_preprocess_no_io c m a j e s)))))
   \<and> (fst (tworker_preprocess c m a j e s) = Some (url, u) \<longrightarrow>
      execute (traced c) (UTask m) a j e ([], s) =
        (Inr Completed,
         [Call_tworker_preprocess m a j e, Call_uworker_main url,
          Call_logs_log ''Utask: done with preprocess and main.''],
         logs_log c ''Utask: done with preprocess and main.''
           (snd (uworker_main c url (snd (tworker_preprocess c m a j e s))))))"
  unfolding traced_UTask traced_UTaskLocalExecutor
  by (auto split: prod.splits option.splits)

theorem main_absent_outcomes_witness:
  "fst (tworker_preprocess_no_io sample fuzz_task ''noop'' ''job'' [] []) = Some ''noop''
   \<and> fst (uworker_main_no_io sample fuzz_task ''noop''
            (snd (tworker_preprocess_no_io sample fuzz_task ''noop'' ''job'' [] []))) = None
   \<and> execute (traced sample) (UTaskLocalExecutor fuzz_task) ''noop'' ''job'' [] ([], []) =
        (Inr Skipped,
         [Call_tworker_preprocess_no_io fuzz_task ''noop'' ''job'' [],
          Call_uworker_main_no_io fuzz_task ''noop''],
         [Invoked fuzz_task PREPROCESS, Invoked fuzz_task MAIN])
   \<and> fst (tworker_preprocess sample fuzz_task ''noop'' ''job'' [] []) = Some (''gs://noop'', ())
   \<and> fst (execute (traced sample) (UTask fuzz_task) ''noop'' ''job'' [] ([], []))
        = Inr Completed"
  using main_absent_outcomes [of sample fuzz_task "''noop''" "''job''" "[]" "[]" "''noop''"
      "''gs://noop''" "()"]
  by (simp add: sample_simps sample_world_simps spec_tworker_preprocess_def)

subsection \<open>Storage operations of a distributed run\<close>

text \<open>
  Claim C2 says that a \<open>UTask\<close> whose preprocess yields an artifact and whose main
  yields a second one returns \<open>Completed\<close> with \<open>materialize\<close> and \<open>resolve\<close> each
  invoked twice. On the sample module with the argument \<open>seed\<close> the run materializes
  two artifacts and resolves one locator: \<open>execute\<close> does not run postprocess, which
  is where the second locator would be resolved.
\<close>

theorem distributed_resolves_once_counterexample:
  "preprocess sample_world fuzz_task ''seed'' ''job'' [] = Some ''seed''
   \<and> main sample_world fuzz_task ''seed'' = Some ''seed.out''
   \<and> execute sample (UTask fuzz_task) ''seed'' ''job'' [] [] =
       (Inr Completed,
        [Invoked fuzz_task PREPROCESS, Materialize ''seed'', Resolve ''gs://seed'',
         Invoked fuzz_task MAIN, Materialize ''seed.out'',
         Logged ''Utask: done with preprocess and main.''])
   \<and> length (filter is_Resolve
        (snd (execute sample (UTask fuzz_task) ''seed'' ''job'' [] []))) \<noteq> 2"
  by (simp add: sample_simps sample_world_simps spec_tworker_preprocess_def
      spec_uworker_main_def)

text \<open>
  Claim C2, amended. For a \<open>UTask\<close> whose preprocess yields an artifact \<open>A\<close> that the
  storage returns unchanged and that names its task module, and whose main given \<open>A\<close>
  yields \<open>B\<close>: \<open>execute\<close> returns \<open>Completed\<close>, having invoked preprocess and main,
  \<open>materialize\<close> exactly twice and \<open>resolve\<close> exactly once. Postprocess is not
  part of that run; when a \<open>PostprocessTask\<close> is then executed on the locator of \<open>B\<close>,
  postprocess is invoked and \<open>resolve\<close> has been invoked exactly twice in all.
\<close>

theorem distributed_storage_calls:
  assumes "preprocess w m a j e = Some A"
    and "resolve w (materialize w A) = A"
    and "module_of w A = m"
    and "main w m A = Some B"
  shows "(let r = execute (spec_collaborators w) (UTask m) a j e [];
              r' = execute (spec_collaborators w) (PostprocessTask m') (materialize w B) j' e'
                     (snd r)
          in r = (Inr Completed,
                  [Invoked m PREPROCESS, Materialize A, Resolve (materialize w A),
                   Invoked m MAIN, Materialize B,
                   Logged ''Utask: done with preprocess and main.''])
             \<and> length (filter is_Materialize (snd r)) = 2
             \<and> length (filter is_Resolve (snd r)) = 1
             \<and> List.map_filter phase_of_event (snd r) = [PREPROCESS, MAIN]
             \<and> fst r' = Inr Completed
             \<and> length (filter is_Materialize (snd r')) = 2
             \<and> length (filter is_Resolve (snd r')) = 2
             \<and> List.map_filter phase_of_event (snd r') = [PREPROCESS, MAIN, POSTPROCESS])"
  using assms
  by (simp add: spec_collaborators_def spec_tworker_preprocess_def spec_uworker_main_def
      spec_tworker_postprocess_def Let_def)

theorem distributed_storage_calls_witness:
  "preprocess sample_world fuzz_task ''seed'' ''job'' [] = Some ''seed''
   \<and> resolve sample_world (materialize sample_world ''seed'') = ''seed''
   \<and> module_of sample_world ''seed'' = fuzz_task
   \<and> main sample_world fuzz_task ''seed'' = Some ''seed.out''
   \<and> length (filter is_Materialize
        (snd (execute (spec_collaborators sample_world) (UTask fuzz_task) ''seed'' ''job'' [] [])))
       = 2
   \<and> length (filter is_Resolve
        (snd (execute (spec_collaborators sample_world) (UTask fuzz_task) ''seed'' ''job'' [] [])))
       = 1"
proof -
  have h1: "preprocess sample_world fuzz_task ''seed'' ''job'' [] = Some ''seed''"
    and h2: "resolve sample_world (materialize sample_world ''seed'') = ''seed''"
    and h3: "module_of sample_world ''seed'' = fuzz_task"
    and h4: "main sample_world fuzz_task ''seed'' = Some ''seed.out''"
    by (simp_all add: sample_world_simps)
  from distributed_storage_calls [OF h1 h2 h3 h4, of none_str "''job''" "[]"] h1 h2 h3 h4
  show ?thesis by (simp add: Let_def)
qed

subsection \<open>Trusted tasks\<close>

text \<open>
  Claim C9. \<open>execute\<close> of a \<open>TrustedTask\<close> makes exactly one call: \<open>execute_task\<close>
  of its module, with the task argument and the job type. It calls no helper of
  \<open>utasks\<close>, so no handoff artifact is created, materialized or resolved, and its
  result does not depend on the environment argument.
\<close>

theorem trusted_execute_once:
  "execute (traced c) (TrustedTask m) task_argument job_type uworker_env ([], s) =
     (Inr Completed, [Call_execute_task m task_argument job_type],
      execute_task c m task_argument job_type s)
   \<and> execute c (TrustedTask m) task_argument job_type uworker_env s =
     execute c (TrustedTask m) task_argument job_type uworker_env' s"
  by (simp add: traced_def)

subsection \<open>Names that are not registered\<close>

text \<open>
  Claim C6. For a name that is not registered, \<open>dispatch\<close> fails with
  \<open>UnknownTaskError\<close> and changes nothing: it neither returns a signal nor runs
  any task. The lookup of the source itself, in \<open>is_multimachine_executed\<close>, raises
  \<open>KeyError\<close> for such a name.
\<close>

theorem dispatch_unregistered_fails:
  assumes "task_name \<notin> set (map fst cmap)"
  shows "dispatch c cmap task_name task_argument job_type uworker_env s =
           (Inl (UnknownTaskError task_name), s)
       \<and> is_multimachine_executed cmap task_name = Inl (KeyError task_name)"
proof -
  from assms have "map_of cmap task_name = None"
    by (simp add: map_of_eq_None_iff)
  then show ?thesis
    by (simp add: dispatch_def is_multimachine_executed_def dict_getitem_def)
qed

theorem dispatch_unregistered_fails_witness:
  "''format_disk'' \<notin> set (map fst COMMAND_MAP)
   \<and> dispatch sample COMMAND_MAP ''format_disk'' ''1'' ''job'' [] [] =
       (Inl (UnknownTaskError ''format_disk''), [])"
proof -
  have h: "''format_disk'' \<notin> set (map fst COMMAND_MAP)"
    by (simp add: COMMAND_MAP_value)
  from dispatch_unregistered_fails [OF h, of sample "''1''" "''job''" "[]" "[]"] h
  show ?thesis by simp
qed

end
